theory Spec2Isabelle
  imports Complex_Main "HOL-Library.Char_ord" "HOL-Library.List_Lexorder"
    "HOL-Library.Product_Lexorder"
begin

section \<open>Values, errors and data frames\<close>

text \<open>
  The program \<^verbatim>\<open>02_first_stage_ML/AOD_impute.py\<close> works on pandas data frames read
  from CSV files. A cell is a typed value: \<open>Null\<close> stands for NaN, NaT and None, \<open>IntV\<close>
  for an int64 cell, \<open>NumV\<close> for a float64 cell, \<open>StrV\<close> for text and \<open>DateV y m d\<close> for
  a timestamp. The text layer of CSV files is not modelled: a file holds a frame of typed
  cells, so writing a frame and reading it back gives the same frame.
\<close>

datatype val = Null | IntV int | NumV real | StrV string | DateV nat nat nat

datatype error =
    KeyError "string list"
  | ValueError string
  | IndexError
  | FileNotFoundError string
  | UnboundLocalError string
  | OtherError string

record frame =
  columns :: "string list"
  rows :: "val list list"

type_synonym fs = "string \<rightharpoonup> frame"

text \<open>Exceptions propagate: the first failing step decides the result.\<close>

definition andThen :: "error + 'a \<Rightarrow> ('a \<Rightarrow> error + 'b) \<Rightarrow> error + 'b" where
  "andThen r f = (case r of Inl e \<Rightarrow> Inl e | Inr x \<Rightarrow> f x)"

fun mapM :: "('a \<Rightarrow> error + 'b) \<Rightarrow> 'a list \<Rightarrow> error + 'b list" where
  "mapM f [] = Inr []"
| "mapM f (x # xs) = andThen (f x) (\<lambda>y. andThen (mapM f xs) (\<lambda>ys. Inr (y # ys)))"

subsection \<open>The library the program calls\<close>

text \<open>
  The regressor, the metrics, the floating-point square root, the random generator and
  the formatting of floats belong to XGBoost, scikit-learn, NumPy and Python. They are
  parameters of the model:
  \<open>fit params X y\<close> is \<^verbatim>\<open>XGBRegressor(**params, ...).fit(X, y)\<close>, which may raise;
  \<open>permutation seed n\<close> is \<^verbatim>\<open>RandomState(seed).permutation(n)\<close>.
\<close>

record 'm lib =
  fit :: "(string \<times> val) list \<Rightarrow> frame \<Rightarrow> val list \<Rightarrow> error + 'm"
  predict :: "'m \<Rightarrow> frame \<Rightarrow> error + val list"
  feature_importances :: "'m \<Rightarrow> val list"
  r2_score :: "val list \<Rightarrow> val list \<Rightarrow> error + real"
  mean_squared_error :: "val list \<Rightarrow> val list \<Rightarrow> error + real"
  math_sqrt :: "real \<Rightarrow> error + real"
  permutation :: "nat \<Rightarrow> nat \<Rightarrow> nat list"
  float_repr :: "real \<Rightarrow> string"

subsection \<open>Frame operations\<close>

fun index_of :: "'a list \<Rightarrow> 'a \<Rightarrow> nat" where
  "index_of [] c = 0"
| "index_of (x # xs) c = (if x = c then 0 else Suc (index_of xs c))"

definition cell :: "val list \<Rightarrow> nat \<Rightarrow> val" where
  "cell r i = (if i < length r then r ! i else Null)"

definition column_values :: "frame \<Rightarrow> string \<Rightarrow> val list" where
  "column_values df c = map (\<lambda>r. cell r (index_of (columns df) c)) (rows df)"

definition project :: "frame \<Rightarrow> string list \<Rightarrow> frame" where
  "project df cs =
     \<lparr>columns = cs, rows = map (\<lambda>r. map (\<lambda>c. cell r (index_of (columns df) c)) cs) (rows df)\<rparr>"

text \<open>\<^verbatim>\<open>df[c]\<close>: a missing label raises KeyError.\<close>

definition getitem :: "frame \<Rightarrow> string \<Rightarrow> error + val list" where
  "getitem df c =
     (if c \<in> set (columns df) then Inr (column_values df c) else Inl (KeyError [c]))"

text \<open>\<^verbatim>\<open>df[[c1, ..., cn]]\<close>: any missing label raises KeyError; there is no silent subsetting.\<close>

definition getitems :: "frame \<Rightarrow> string list \<Rightarrow> error + frame" where
  "getitems df cs =
     (let missing = filter (\<lambda>c. c \<notin> set (columns df)) cs
      in if missing = [] then Inr (project df cs) else Inl (KeyError missing))"

text \<open>\<^verbatim>\<open>df[c] = values\<close>: replaces the column when it exists, appends it otherwise.\<close>

definition setitem :: "frame \<Rightarrow> string \<Rightarrow> val list \<Rightarrow> error + frame" where
  "setitem df c vs =
     (if length vs \<noteq> length (rows df)
      then Inl (ValueError ''Length of values does not match length of index'')
      else if c \<in> set (columns df)
      then Inr (df\<lparr>rows := map (\<lambda>(r, v). r[index_of (columns df) c := v]) (zip (rows df) vs)\<rparr>)
      else Inr \<lparr>columns = columns df @ [c],
                rows = map (\<lambda>(r, v). r @ [v]) (zip (rows df) vs)\<rparr>)"

text \<open>\<^verbatim>\<open>.iloc[idx]\<close> and \<^verbatim>\<open>.take(idx)\<close>: positions out of range raise IndexError.\<close>

definition iloc :: "'a list \<Rightarrow> nat list \<Rightarrow> error + 'a list" where
  "iloc xs idx =
     (if list_all (\<lambda>i. i < length xs) idx then Inr (map (\<lambda>i. xs ! i) idx) else Inl IndexError)"

definition frame_iloc :: "frame \<Rightarrow> nat list \<Rightarrow> error + frame" where
  "frame_iloc df idx = andThen (iloc (rows df) idx) (\<lambda>rs. Inr (df\<lparr>rows := rs\<rparr>))"

text \<open>\<^verbatim>\<open>df.drop(columns=cs, errors='ignore')\<close>.\<close>

definition drop_columns :: "frame \<Rightarrow> string list \<Rightarrow> frame" where
  "drop_columns df cs = project df (filter (\<lambda>c. c \<notin> set cs) (columns df))"

definition rename :: "frame \<Rightarrow> string \<Rightarrow> string \<Rightarrow> frame" where
  "rename df old new = df\<lparr>columns := map (\<lambda>c. if c = old then new else c) (columns df)\<rparr>"

subsection \<open>Files\<close>

definition path_join :: "string \<Rightarrow> string \<Rightarrow> string" where
  "path_join a b = a @ ''/'' @ b"

definition read_csv :: "fs \<Rightarrow> string \<Rightarrow> error + frame" where
  "read_csv files p = (case files p of None \<Rightarrow> Inl (FileNotFoundError p) | Some df \<Rightarrow> Inr df)"

definition to_csv :: "fs \<Rightarrow> string \<Rightarrow> frame \<Rightarrow> fs" where
  "to_csv files p df = files(p \<mapsto> df)"

subsection \<open>Conversions of cells\<close>

fun str_nat :: "nat \<Rightarrow> string" where
  "str_nat n =
     (if n < 10 then [''0123456789'' ! n]
      else str_nat (n div 10) @ [''0123456789'' ! (n mod 10)])"

declare str_nat.simps [simp del]

definition str_int :: "int \<Rightarrow> string" where
  "str_int i = (if i < 0 then CHR ''-'' # str_nat (nat (- i)) else str_nat (nat i))"

definition pad :: "nat \<Rightarrow> string \<Rightarrow> string" where
  "pad w s = replicate (w - length s) CHR ''0'' @ s"

text \<open>
  \<^verbatim>\<open>pd.to_datetime\<close> on typed cells: a timestamp or a missing value is kept. Parsing of
  text is outside the model, so any other cell is reported as unparseable.
\<close>

definition to_datetime :: "val \<Rightarrow> error + val" where
  "to_datetime v =
     (case v of DateV y m d \<Rightarrow> Inr v | Null \<Rightarrow> Inr Null
      | _ \<Rightarrow> Inl (ValueError ''Unknown datetime string format''))"

text \<open>\<^verbatim>\<open>.dt.strftime('%Y-%m')\<close>: a missing timestamp stays missing.\<close>

definition strftime_Ym :: "val \<Rightarrow> val" where
  "strftime_Ym v =
     (case v of DateV y m d \<Rightarrow> StrV (pad 4 (str_nat y) @ ''-'' @ pad 2 (str_nat m)) | _ \<Rightarrow> Null)"

text \<open>\<^verbatim>\<open>.astype(int)\<close>: floats are truncated, a missing value or text raises.\<close>

definition astype_int :: "val \<Rightarrow> error + val" where
  "astype_int v =
     (case v of IntV i \<Rightarrow> Inr (IntV i)
      | NumV r \<Rightarrow> Inr (IntV (if 0 \<le> r then \<lfloor>r\<rfloor> else \<lceil>r\<rceil>))
      | Null \<Rightarrow> Inl (ValueError ''Cannot convert non-finite values (NA or inf) to integer'')
      | _ \<Rightarrow> Inl (ValueError ''invalid literal for int()''))"

definition astype_str :: "'m lib \<Rightarrow> val \<Rightarrow> val" where
  "astype_str l v =
     (case v of IntV i \<Rightarrow> StrV (str_int i)
      | NumV r \<Rightarrow> StrV (float_repr l r)
      | StrV s \<Rightarrow> StrV s
      | Null \<Rightarrow> StrV ''nan''
      | DateV y m d \<Rightarrow> StrV (pad 4 (str_nat y) @ ''-'' @ pad 2 (str_nat m) @ ''-'' @ pad 2 (str_nat d)))"

text \<open>The order pandas and NumPy sort cells by, within a column of one type.\<close>

type_synonym key = "nat \<times> real \<times> string \<times> nat \<times> nat \<times> nat"

fun val_key :: "val \<Rightarrow> key" where
  "val_key Null = (0, 0, [], 0, 0, 0)"
| "val_key (IntV i) = (1, real_of_int i, [], 0, 0, 0)"
| "val_key (NumV r) = (1, r, [], 0, 0, 0)"
| "val_key (StrV s) = (2, 0, s, 0, 0, 0)"
| "val_key (DateV y m d) = (3, 0, [], y, m, d)"


section \<open>Grid merger\<close>

text \<open>
  \<^verbatim>\<open>pd.merge(left, right, how='left', on=key)\<close>: every left row is kept, in order; it is
  paired with each right row of the same key, and with missing values when there is none.
  Columns other than the key that both frames have get the suffixes \<^verbatim>\<open>_x\<close> and \<^verbatim>\<open>_y\<close>.
\<close>

definition right_matches :: "frame \<Rightarrow> string \<Rightarrow> val \<Rightarrow> val list list" where
  "right_matches r on k = filter (\<lambda>rr. cell rr (index_of (columns r) on) = k) (rows r)"

definition join_row :: "frame \<Rightarrow> frame \<Rightarrow> string \<Rightarrow> val list \<Rightarrow> val list list" where
  "join_row l r on lr =
     (let rest = filter (\<lambda>c. c \<noteq> on) (columns r);
          ms = right_matches r on (cell lr (index_of (columns l) on))
      in if ms = [] then [lr @ replicate (length rest) Null]
         else map (\<lambda>rr. lr @ map (\<lambda>c. cell rr (index_of (columns r) c)) rest) ms)"

definition merge_left :: "frame \<Rightarrow> frame \<Rightarrow> string \<Rightarrow> error + frame" where
  "merge_left l r on =
     (if on \<notin> set (columns l) \<or> on \<notin> set (columns r) then Inl (KeyError [on])
      else
        let rest = filter (\<lambda>c. c \<noteq> on) (columns r);
            lcols = map (\<lambda>c. if c \<noteq> on \<and> c \<in> set rest then c @ ''_x'' else c) (columns l);
            rcols = map (\<lambda>c. if c \<in> set (columns l) then c @ ''_y'' else c) rest
        in Inr \<lparr>columns = lcols @ rcols, rows = concat (map (join_row l r on) (rows l))\<rparr>)"

text \<open>\<^verbatim>\<open>df[c] = df[c].astype(int).astype(str)\<close>.\<close>

definition normalize_id :: "'m lib \<Rightarrow> frame \<Rightarrow> string \<Rightarrow> error + frame" where
  "normalize_id l df c =
     andThen (getitem df c) (\<lambda>vs.
     andThen (mapM astype_int vs) (\<lambda>is.
     setitem df c (map (astype_str l) is)))"

text \<open>Lines 44 to 48 of \<^verbatim>\<open>load_and_sample_df\<close>, run when the grid file exists.\<close>

definition merge_grid :: "'m lib \<Rightarrow> frame \<Rightarrow> frame \<Rightarrow> error + frame" where
  "merge_grid l df grid =
     andThen (normalize_id l (rename grid ''grid_id_10km'' ''grid_id'') ''grid_id'') (\<lambda>grid_50km.
     andThen (normalize_id l df ''grid_id'') (\<lambda>df'.
     merge_left df' grid_50km ''grid_id''))"

section \<open>Stratified sampler\<close>

text \<open>Python's \<^verbatim>\<open>round\<close>: to the nearest integer, a tie to the even one.\<close>

definition py_round :: "real \<Rightarrow> int" where
  "py_round x =
     (let f = \<lfloor>x\<rfloor>; d = x - of_int f
      in if d < 1 / 2 then f else if 1 / 2 < d then f + 1 else if even f then f else f + 1)"

text \<open>
  \<^verbatim>\<open>x.sample(frac=fraction, random_state=seed, replace=False)\<close> on the rows \<open>xs\<close> of one
  group: pandas takes \<^verbatim>\<open>n = round(frac * len(x))\<close> and the first \<open>n\<close> positions of
  \<^verbatim>\<open>RandomState(seed).permutation(len(x))\<close>. The fraction is an exact number here; at the
  program's 0.03 the floating-point product rounds to the same integer.
\<close>

definition sample :: "'m lib \<Rightarrow> real \<Rightarrow> nat \<Rightarrow> 'a list \<Rightarrow> error + 'a list" where
  "sample l fraction seed xs =
     (if fraction < 0 then Inl (ValueError ''A negative number of rows requested'')
      else if 1 < fraction then Inl (ValueError ''Replace has to be set to True when upsampling'')
      else iloc xs (take (nat (py_round (fraction * real (length xs))))
                         (permutation l seed (length xs))))"

text \<open>
  \<^verbatim>\<open>df.groupby(by)\<close>: the row positions of each group, the groups in the sorted order of
  their keys. A row with a missing value in a key column belongs to no group (pandas'
  default \<^verbatim>\<open>dropna=True\<close>). A missing key column raises KeyError.
\<close>

definition group_keys :: "frame \<Rightarrow> string list \<Rightarrow> val list list" where
  "group_keys df by = rows (project df by)"

definition groupby :: "frame \<Rightarrow> string list \<Rightarrow> error + nat list list" where
  "groupby df by =
     (case filter (\<lambda>c. c \<notin> set (columns df)) by of
        m # _ \<Rightarrow> Inl (KeyError [m])
      | [] \<Rightarrow>
        let ks = group_keys df by;
            valid = filter (\<lambda>i. Null \<notin> set (ks ! i)) [0..<length ks];
            uniq = sort (remdups (map (\<lambda>i. map val_key (ks ! i)) valid))
        in Inr (map (\<lambda>u. filter (\<lambda>i. map val_key (ks ! i) = u) valid) uniq))"

text \<open>
  \<^verbatim>\<open>df.groupby(by).apply(lambda x: x.sample(...)).reset_index(drop=True)\<close>: the sampled
  positions of each group, and the frame of the sampled rows, group after group. (As in
  pandas 1 and 2, the key columns stay in the result.)
\<close>

definition sample_groups :: "'m lib \<Rightarrow> real \<Rightarrow> nat \<Rightarrow> frame \<Rightarrow> string list \<Rightarrow> error + nat list list" where
  "sample_groups l fraction seed df by = andThen (groupby df by) (mapM (sample l fraction seed))"

definition groupby_sample :: "'m lib \<Rightarrow> real \<Rightarrow> nat \<Rightarrow> frame \<Rightarrow> string list \<Rightarrow> error + frame" where
  "groupby_sample l fraction seed df by =
     andThen (sample_groups l fraction seed df by) (\<lambda>chosen. frame_iloc df (concat chosen))"

subsection \<open>\<^verbatim>\<open>load_and_sample_df\<close>\<close>

definition path_to_data :: string where
  "path_to_data = ''path_to_data''"

definition ml_dir :: string where
  "ml_dir = path_join path_to_data ''ML_full_model''"

definition input_file :: string where
  "input_file = path_join ml_dir ''df_for_imputation.csv''"

definition grid_file :: string where
  "grid_file = path_join ml_dir ''grid_intersect_with_50km.csv''"

definition output_sampled :: string where
  "output_sampled = path_join ml_dir ''aod_ml_df_sampled.csv''"

text \<open>\<^verbatim>\<open>df[c] = pd.to_datetime(df[c])\<close>.\<close>

definition parse_dates :: "frame \<Rightarrow> string \<Rightarrow> error + frame" where
  "parse_dates df c =
     andThen (getitem df c) (\<lambda>vs. andThen (mapM to_datetime vs) (setitem df c))"

text \<open>Lines 51 to 61: the year-month column, the sample, and the columns the report reads.\<close>

definition sample_df :: "'m lib \<Rightarrow> frame \<Rightarrow> error + frame" where
  "sample_df l df =
     andThen (getitem df ''date'') (\<lambda>dates.
     andThen (setitem df ''year_month'' (map strftime_Ym dates)) (\<lambda>df'.
     andThen (groupby_sample l (3 / 100) 42 df' [''grid_id_50km'', ''year_month'']) (\<lambda>df_sampled.
     andThen (getitem df_sampled ''grid_id'') (\<lambda>_.
     andThen (getitem df_sampled ''grid_id_50km'') (\<lambda>_.
     Inr df_sampled)))))"

definition load_df :: "'m lib \<Rightarrow> fs \<Rightarrow> error + frame" where
  "load_df l files =
     andThen (read_csv files input_file) (\<lambda>df.
     andThen (parse_dates df ''date'') (\<lambda>df'.
     if files grid_file \<noteq> None
     then andThen (read_csv files grid_file) (merge_grid l df')
     else Inr df'))"

definition load_and_sample_df :: "'m lib \<Rightarrow> fs \<Rightarrow> (error + frame) \<times> fs" where
  "load_and_sample_df l files =
     (case andThen (load_df l files) (sample_df l) of
        Inl e \<Rightarrow> (Inl e, files)
      | Inr df_sampled \<Rightarrow> (Inr df_sampled, to_csv files output_sampled df_sampled))"


section \<open>Group cross-validator\<close>

text \<open>
  \<^verbatim>\<open>GroupKFold(n_splits).split(X, y, groups)\<close> of scikit-learn. The distinct groups are
  sorted (\<^verbatim>\<open>np.unique\<close>) and counted (\<^verbatim>\<open>np.bincount\<close>); the groups are visited from the most
  frequent to the least, and each goes to the fold that is lightest so far. Fold \<open>f\<close> then
  validates on the rows whose group went to \<open>f\<close> and trains on the other rows.
\<close>

definition np_unique :: "val list \<Rightarrow> key list" where
  "np_unique groups = sort (remdups (map val_key groups))"

definition n_samples_per_group :: "val list \<Rightarrow> nat list" where
  "n_samples_per_group groups =
     (let ks = map val_key groups
      in map (\<lambda>u. length (filter (\<lambda>k. k = u) ks)) (np_unique groups))"

text \<open>
  \<^verbatim>\<open>np.argsort\<close>: the positions in ascending order of weight. NumPy promises no order among
  equal weights; the stable one is taken here.
\<close>

definition argsort :: "nat list \<Rightarrow> nat list" where
  "argsort ws = sort_key (\<lambda>i. ws ! i) [0..<length ws]"

text \<open>\<^verbatim>\<open>np.argmin\<close>: the first position of the least element.\<close>

fun argmin :: "nat list \<Rightarrow> nat" where
  "argmin [] = 0"
| "argmin [w] = 0"
| "argmin (w # ws) = (let j = argmin ws in if w \<le> ws ! j then 0 else Suc j)"

fun distribute :: "nat list \<Rightarrow> nat list \<Rightarrow> nat list \<Rightarrow> nat list \<Rightarrow> nat list" where
  "distribute [] weights n_samples_per_fold group_to_fold = group_to_fold"
| "distribute (g # gs) weights n_samples_per_fold group_to_fold =
     (let lightest_fold = argmin n_samples_per_fold
      in distribute gs weights
           (n_samples_per_fold[lightest_fold := n_samples_per_fold ! lightest_fold + weights ! g])
           (group_to_fold[g := lightest_fold]))"

definition group_to_fold :: "nat \<Rightarrow> val list \<Rightarrow> nat list" where
  "group_to_fold n_splits groups =
     (let weights = n_samples_per_group groups
      in distribute (rev (argsort weights)) weights
           (replicate n_splits 0) (replicate (length weights) 0))"

text \<open>The fold of each row: \<^verbatim>\<open>group_to_fold[groups]\<close>.\<close>

definition row_folds :: "nat \<Rightarrow> val list \<Rightarrow> nat list" where
  "row_folds n_splits groups =
     (let unique_groups = np_unique groups;
          g2f = group_to_fold n_splits groups
      in map (\<lambda>g. g2f ! index_of unique_groups (val_key g)) groups)"

definition GroupKFold_split :: "nat \<Rightarrow> val list \<Rightarrow> error + (nat list \<times> nat list) list" where
  "GroupKFold_split n_splits groups =
     (if n_splits < 2 then Inl (ValueError ''k-fold cross-validation requires at least one train/test split'')
      else if Null \<in> set groups then Inl (ValueError ''Input groups contains NaN'')
      else if length (np_unique groups) < n_splits
      then Inl (ValueError ''Cannot have number of splits greater than the number of groups'')
      else
        let indices = row_folds n_splits groups
        in Inr (map (\<lambda>f.
             let test = filter (\<lambda>i. indices ! i = f) [0..<length groups]
             in (filter (\<lambda>i. i \<notin> set test) [0..<length groups], test))
             [0..<n_splits]))"

section \<open>Fold trainer\<close>

record 'm fold_out =
  imp_df :: frame
  train_df :: frame
  eval_df :: frame
  model_xgb :: 'm

definition drop_cols :: "string list" where
  "drop_cols = [''date'', ''grid_id'', ''grid_id_50km'', ''year_month'']"

text \<open>
  The importance table: one row per model column, sorted by importance, largest first
  (rows of equal importance in no order the library promises; here reversed).
\<close>

definition importance_frame :: "'m lib \<Rightarrow> frame \<Rightarrow> 'm \<Rightarrow> error + frame" where
  "importance_frame l X m =
     (let imp = feature_importances l m
      in if length imp \<noteq> length (columns X)
         then Inl (ValueError ''All arrays must be of the same length'')
         else Inr \<lparr>columns = [''feature'', ''importance''],
                   rows = rev (sort_key (\<lambda>r. val_key (cell r 1))
                                 (map (\<lambda>(c, v). [StrV c, v]) (zip (columns X) imp)))\<rparr>)"

text \<open>\<^verbatim>\<open>math.sqrt(mean_squared_error(y, y_pred))\<close>.\<close>

definition rmse :: "'m lib \<Rightarrow> val list \<Rightarrow> val list \<Rightarrow> error + real" where
  "rmse l y y_pred =
     andThen (mean_squared_error l y y_pred) (math_sqrt l)"

text \<open>
  The body of the loop of \<^verbatim>\<open>run_outer_cv\<close> (lines 86 to 129) for one fold. The metrics are
  computed and only printed; printing is not modelled.
\<close>

definition train_fold ::
  "'m lib \<Rightarrow> (string \<times> val) list \<Rightarrow> frame \<Rightarrow> val list \<Rightarrow> nat list \<times> nat list \<Rightarrow> error + 'm fold_out"
where
  "train_fold l params X y split =
     (case split of (trn_idx, val_idx) \<Rightarrow>
     andThen (frame_iloc X trn_idx) (\<lambda>X_trn.
     andThen (frame_iloc X val_idx) (\<lambda>X_val.
     andThen (iloc y trn_idx) (\<lambda>y_trn.
     andThen (iloc y val_idx) (\<lambda>y_val.
     andThen (getitems X_trn [''date'', ''grid_id'']) (\<lambda>train0.
     andThen (setitem train0 ''y_trn'' y_trn) (\<lambda>train1.
     andThen (getitems X_val [''date'', ''grid_id'']) (\<lambda>eval0.
     andThen (setitem eval0 ''y_val'' y_val) (\<lambda>eval1.
     let X_trn_model = drop_columns X_trn drop_cols;
         X_val_model = drop_columns X_val drop_cols
     in
     andThen (fit l params X_trn_model y_trn) (\<lambda>model.
     andThen (importance_frame l X_trn_model model) (\<lambda>imp.
     andThen (predict l model X_trn_model) (\<lambda>y_trn_pred.
     andThen (r2_score l y_trn y_trn_pred) (\<lambda>r2_trn.
     andThen (rmse l y_trn y_trn_pred) (\<lambda>rmse_trn.
     andThen (setitem train1 ''trn_y_pred'' y_trn_pred) (\<lambda>train2.
     andThen (predict l model X_val_model) (\<lambda>y_val_pred.
     andThen (setitem eval1 ''y_pred'' y_val_pred) (\<lambda>eval2.
     andThen (r2_score l y_val y_val_pred) (\<lambda>r2_val.
     andThen (rmse l y_val y_val_pred) (\<lambda>rmse_val.
     Inr \<lparr>imp_df = imp, train_df = train2, eval_df = eval2, model_xgb = model\<rparr>)))))))))))))))))))"

text \<open>The saving loop (lines 136 to 139): three files per fold, named by the fold number.\<close>

definition fold_path :: "string \<Rightarrow> nat \<Rightarrow> string \<Rightarrow> string" where
  "fold_path output_dir i suffix = path_join output_dir (''fold_'' @ str_nat (i + 1) @ suffix)"

fun save_results :: "string \<Rightarrow> nat \<Rightarrow> 'm fold_out list \<Rightarrow> fs \<Rightarrow> fs" where
  "save_results output_dir i [] files = files"
| "save_results output_dir i (r # rs) files =
     save_results output_dir (Suc i) rs
       (to_csv
         (to_csv
           (to_csv files (fold_path output_dir i ''_XGB_feature_importance.csv'') (imp_df r))
           (fold_path output_dir i ''_XGB_traindf.csv'') (train_df r))
         (fold_path output_dir i ''_XGB_evaldf.csv'') (eval_df r))"

text \<open>
  The folds are trained one after the other, each one ending before the next begins; the
  first exception ends the run. The model returned is the variable \<^verbatim>\<open>model_xgb\<close> as the
  last pass of the loop left it.
\<close>

definition train_folds ::
  "'m lib \<Rightarrow> frame \<Rightarrow> string list \<Rightarrow> string \<Rightarrow> string \<Rightarrow> (string \<times> val) list \<Rightarrow> error + 'm fold_out list"
where
  "train_folds l df features target group_col best_params_XGB =
     andThen (getitems df features) (\<lambda>X.
     andThen (getitem df target) (\<lambda>y.
     andThen (getitem df group_col) (\<lambda>groups.
     andThen (GroupKFold_split 10 groups) (\<lambda>outer_cv.
     mapM (train_fold l best_params_XGB X y) outer_cv))))"

definition run_outer_cv ::
  "'m lib \<Rightarrow> frame \<Rightarrow> string list \<Rightarrow> string \<Rightarrow> string \<Rightarrow> (string \<times> val) list \<Rightarrow> string \<Rightarrow> fs
     \<Rightarrow> (error + 'm) \<times> fs"
where
  "run_outer_cv l df features target group_col best_params_XGB output_dir files =
     (case train_folds l df features target group_col best_params_XGB of
        Inl e \<Rightarrow> (Inl e, files)
      | Inr results \<Rightarrow>
          (if results = [] then Inl (UnboundLocalError ''model_xgb'')
           else Inr (model_xgb (last results)),
           save_results output_dir 0 results files))"

section \<open>Pipeline and imputer\<close>

definition feature_cols :: "string list" where
  "feature_cols =
     [''aot_daily'', ''co_daily'', ''v_wind'', ''u_wind'', ''rainfall'', ''temp'',
      ''pressure'', ''thermal_radiation'', ''low_veg'', ''high_veg'', ''dewpoint_temp'',
      ''month'', ''day_of_year'', ''cos_day_of_year'', ''monsoon'', ''lon'', ''lat'',
      ''wind_degree'', ''RH'', ''aot_rolling'', ''co_rolling'', ''omi_no2_rolling'',
      ''v_wind_rolling'', ''u_wind_rolling'', ''rainfall_rolling'', ''temp_rolling'',
      ''wind_degree_rolling'', ''RH_rolling'', ''thermal_radiation_rolling'',
      ''dewpoint_temp_rolling'', ''aot_daily_annual'', ''co_daily_annual'',
      ''omi_no2_annual'', ''v_wind_annual'', ''u_wind_annual'', ''rainfall_annual'',
      ''thermal_radiation_annual'', ''low_veg_annual'', ''high_veg_annual'',
      ''dewpoint_temp_annual'', ''wind_degree_annual'', ''RH_annual'', ''co_daily_allyears'']"

definition target_col :: string where
  "target_col = ''aod''"

definition OUTPUT_ML_DIR :: string where
  "OUTPUT_ML_DIR = path_join ml_dir ''AOD_impute''"

definition best_params_XGB :: "(string \<times> val) list" where
  "best_params_XGB =
     [(''subsample'', NumV (8 / 10)), (''n_estimators'', IntV 1000),
      (''min_child_weight'', IntV 1), (''max_depth'', IntV 20), (''lambda'', IntV 100),
      (''gamma'', NumV (8 / 10)), (''eta'', NumV (1 / 10)), (''booster'', StrV ''gbtree'')]"

definition missing_file :: string where
  "missing_file = path_join ml_dir ''aod_missing_to_be_imputed.csv''"

definition imputed_out :: string where
  "imputed_out = path_join OUTPUT_ML_DIR ''aod_imputed_XGB.csv''"

text \<open>Step 2 of \<^verbatim>\<open>main\<close> (lines 151 to 154): the sampled file is read back.\<close>

definition load_ml_input :: "'m lib \<Rightarrow> fs \<Rightarrow> error + frame" where
  "load_ml_input l files =
     andThen (read_csv files output_sampled) (\<lambda>df_ml.
     andThen (parse_dates df_ml ''date'') (\<lambda>df_ml'.
     andThen (getitem df_ml' ''grid_id'') (\<lambda>ids.
     setitem df_ml' ''grid_id'' (map (astype_str l) ids))))"

text \<open>
  Step 4 of \<^verbatim>\<open>main\<close> (lines 188 to 195), the imputer: the missing-target table is read,
  its feature columns are selected, the model predicts, and the table with the added
  column is written.
\<close>

definition impute :: "'m lib \<Rightarrow> 'm \<Rightarrow> string list \<Rightarrow> frame \<Rightarrow> error + frame" where
  "impute l final_model features df_missing =
     andThen (parse_dates df_missing ''date'') (\<lambda>df_missing'.
     andThen (getitems df_missing' features) (\<lambda>X_fin.
     andThen (predict l final_model X_fin) (\<lambda>pred.
     setitem df_missing' ''AOD_imputed'' pred)))"

definition final_imputation :: "'m lib \<Rightarrow> 'm \<Rightarrow> string list \<Rightarrow> fs \<Rightarrow> (error + unit) \<times> fs" where
  "final_imputation l final_model features files =
     (case andThen (read_csv files missing_file) (impute l final_model features) of
        Inl e \<Rightarrow> (Inl e, files)
      | Inr out \<Rightarrow> (Inr (), to_csv files imputed_out out))"

definition main :: "'m lib \<Rightarrow> fs \<Rightarrow> (error + unit) \<times> fs" where
  "main l files =
     (case load_and_sample_df l files of
        (Inl e, files1) \<Rightarrow> (Inl e, files1)
      | (Inr df_sampled, files1) \<Rightarrow>
          (case load_ml_input l files1 of
             Inl e \<Rightarrow> (Inl e, files1)
           | Inr df_ml \<Rightarrow>
               (case run_outer_cv l df_ml feature_cols target_col ''grid_id_50km''
                       best_params_XGB OUTPUT_ML_DIR files1 of
                  (Inl e, files2) \<Rightarrow> (Inl e, files2)
                | (Inr final_model, files2) \<Rightarrow>
                    final_imputation l final_model feature_cols files2)))"


section \<open>Example data\<close>

text \<open>
  A stand-in for the library, on which the model can be run: the learner memorises its
  training data, predicts the number of rows it was trained on, and gives every column
  the same importance; the generator permutes by reversal.
\<close>

definition demo_lib :: "(frame \<times> val list) lib" where
  "demo_lib =
     \<lparr>fit = (\<lambda>params X y. Inr (X, y)),
      predict = (\<lambda>m X. Inr (map (\<lambda>r. IntV (int (length (snd m)))) (rows X))),
      feature_importances = (\<lambda>m. replicate (length (columns (fst m))) (IntV 1)),
      r2_score = (\<lambda>y y_pred. Inr 1),
      mean_squared_error = (\<lambda>y y_pred. Inr 0),
      math_sqrt = Inr,
      permutation = (\<lambda>seed n. rev [0..<n]),
      float_repr = (\<lambda>r. ''0.0'')\<rparr>"

text \<open>Ten rows in ten coarse groups, and the ten folds scikit-learn makes of them.\<close>

definition demo_df :: frame where
  "demo_df =
     \<lparr>columns = [''date'', ''grid_id'', ''x'', ''aod'', ''grid_id_50km''],
      rows =
        [[DateV 2020 1 1, StrV ''100'', IntV 0, IntV 0, IntV 0],
         [DateV 2020 1 2, StrV ''101'', IntV 1, IntV 2, IntV 1],
         [DateV 2020 1 3, StrV ''102'', IntV 2, IntV 4, IntV 2],
         [DateV 2020 1 4, StrV ''103'', IntV 3, IntV 6, IntV 3],
         [DateV 2020 1 5, StrV ''104'', IntV 4, IntV 8, IntV 4],
         [DateV 2020 1 6, StrV ''105'', IntV 5, IntV 10, IntV 5],
         [DateV 2020 1 7, StrV ''106'', IntV 6, IntV 12, IntV 6],
         [DateV 2020 1 8, StrV ''107'', IntV 7, IntV 14, IntV 7],
         [DateV 2020 1 9, StrV ''108'', IntV 8, IntV 16, IntV 8],
         [DateV 2020 1 10, StrV ''109'', IntV 9, IntV 18, IntV 9]]\<rparr>"

definition demo_folds :: "(nat list \<times> nat list) list" where
  "demo_folds =
     [([0, 1, 2, 3, 4, 5, 6, 7, 8], [9]),
      ([0, 1, 2, 3, 4, 5, 6, 7, 9], [8]),
      ([0, 1, 2, 3, 4, 5, 6, 8, 9], [7]),
      ([0, 1, 2, 3, 4, 5, 7, 8, 9], [6]),
      ([0, 1, 2, 3, 4, 6, 7, 8, 9], [5]),
      ([0, 1, 2, 3, 5, 6, 7, 8, 9], [4]),
      ([0, 1, 2, 4, 5, 6, 7, 8, 9], [3]),
      ([0, 1, 3, 4, 5, 6, 7, 8, 9], [2]),
      ([0, 2, 3, 4, 5, 6, 7, 8, 9], [1]),
      ([1, 2, 3, 4, 5, 6, 7, 8, 9], [0])]"

definition demo_missing :: frame where
  "demo_missing =
     \<lparr>columns = [''date'', ''grid_id'', ''x''],
      rows = [[DateV 2021 5 1, StrV ''200'', IntV 7], [Null, StrV ''201'', Null]]\<rparr>"

text \<open>The group column of the example, a table with every feature column of \<^verbatim>\<open>main\<close>, a
  missing-target table that already has a prediction column, and the model the last fold
  fits on the example.\<close>

definition demo_groups :: "val list" where
  "demo_groups = [IntV 0, IntV 1, IntV 2, IntV 3, IntV 4, IntV 5, IntV 6, IntV 7, IntV 8, IntV 9]"

definition demo_full :: frame where
  "demo_full =
     \<lparr>columns = ''grid_id_50km'' # ''aod'' # feature_cols,
      rows = map (\<lambda>g. g # replicate 44 (IntV 0)) demo_groups\<rparr>"





definition demo_fine :: frame where
  "demo_fine =
     \<lparr>columns = [''date'', ''grid_id''],
      rows = [[DateV 2020 1 1, IntV 200], [DateV 2020 1 2, IntV 201]]\<rparr>"

definition demo_unmapped :: frame where
  "demo_unmapped =
     \<lparr>columns = [''grid_id_50km'', ''year_month''],
      rows = replicate 17 [IntV 7, StrV ''2020-01''] @ [[Null, StrV ''2020-01'']]\<rparr>"

definition demo_grid :: frame where
  "demo_grid =
     \<lparr>columns = [''grid_id_10km'', ''grid_id_50km''], rows = [[IntV 200, IntV 7]]\<rparr>"



section \<open>A notion of the specification\<close>


section \<open>Exceptions and basic frame facts\<close>

lemma andThen_Inl [simp]: "andThen (Inl e) f = Inl e"
  by (simp add: andThen_def)

lemma andThen_Inr [simp]: "andThen (Inr x) f = f x"
  by (simp add: andThen_def)

lemma andThen_eq_Inr: "andThen r f = Inr y \<longleftrightarrow> (\<exists>x. r = Inr x \<and> f x = Inr y)"
  by (cases r) simp_all

lemma mapM_eq_Inr: "mapM f xs = Inr ys \<longleftrightarrow> list_all2 (\<lambda>x y. f x = Inr y) xs ys"
proof (induction xs arbitrary: ys)
  case Nil
  show ?case by auto
next
  case (Cons x xs)
  show ?case
    by (cases ys) (auto simp: andThen_eq_Inr Cons.IH)
qed

lemma mapM_fails: "x \<in> set xs \<Longrightarrow> f x = Inl e \<Longrightarrow> \<exists>e'. mapM f xs = Inl e'"
proof (induction xs)
  case Nil
  then show ?case by simp
next
  case (Cons a xs)
  show ?case
  proof (cases "f a")
    case (Inl e0)
    then show ?thesis by simp
  next
    case (Inr y)
    with Cons obtain e' where "mapM f xs = Inl e'" by auto
    with Inr show ?thesis by simp
  qed
qed

lemma mapM_to_datetime: "mapM to_datetime vs = Inr ws \<Longrightarrow> ws = vs"
proof (induction vs arbitrary: ws)
  case Nil
  then show ?case by simp
next
  case (Cons v vs)
  then show ?case
    by (auto simp: andThen_eq_Inr to_datetime_def split: val.splits)
qed

lemma update_cell_same: "r[i := cell r i] = r"
  by (simp add: cell_def list_update_beyond)

lemma update_column_same: "map (\<lambda>(r, v). r[i := v]) (zip rs (map (\<lambda>r. cell r i) rs)) = rs"
  by (induction rs) (simp_all add: update_cell_same)

lemma setitem_same_column:
  "c \<in> set (columns df) \<Longrightarrow> setitem df c (column_values df c) = Inr df"
proof -
  assume c: "c \<in> set (columns df)"
  then show ?thesis
    by (simp add: setitem_def column_values_def update_column_same)
qed

lemma parse_dates_Inr: "parse_dates df c = Inr df' \<Longrightarrow> df' = df \<and> c \<in> set (columns df)"
  by (auto simp: parse_dates_def getitem_def andThen_eq_Inr setitem_same_column
      dest!: mapM_to_datetime split: if_splits)

lemma getitems_missing:
  "c \<in> set cs \<Longrightarrow> c \<notin> set (columns df) \<Longrightarrow>
     getitems df cs = Inl (KeyError (filter (\<lambda>c. c \<notin> set (columns df)) cs))"
  by (auto simp: getitems_def Let_def filter_empty_conv)


section \<open>Imputer: a missing feature column\<close>

text \<open>
  Claim C5. When the missing-target table lacks one of the feature columns, the imputation
  step fails, and it fails before the model predicts: the error is the same whatever the
  prediction function is, it is the KeyError of the column selection when the dates parse,
  and the step writes no file.
\<close>

theorem missing_feature_fails_before_prediction:
  assumes "c \<in> set features" and "c \<notin> set (columns df_missing)"
  shows "\<exists>e. impute l m features df_missing = Inl e
           \<and> (\<forall>p. impute (l\<lparr>predict := p\<rparr>) m features df_missing = Inl e)
           \<and> (parse_dates df_missing ''date'' = Inr df_missing \<longrightarrow>
                e = KeyError (filter (\<lambda>c. c \<notin> set (columns df_missing)) features))
           \<and> (files missing_file = Some df_missing \<longrightarrow>
                final_imputation l m features files = (Inl e, files))"
proof (cases "parse_dates df_missing ''date''")
  case (Inl e)
  then show ?thesis
    by (auto simp: impute_def final_imputation_def read_csv_def)
next
  case (Inr df')
  then have "df' = df_missing" by (simp add: parse_dates_Inr)
  with Inr show ?thesis
    using getitems_missing [OF assms]
    by (auto simp: impute_def final_imputation_def read_csv_def)
qed


section \<open>Fold artifacts are written after the last fold\<close>

lemma run_outer_cv_error_keeps_files:
  "fst (run_outer_cv l df features target group_col ps output_dir files) = Inl e
   \<Longrightarrow> snd (run_outer_cv l df features target group_col ps output_dir files) = files"
  by (auto simp: run_outer_cv_def split: sum.splits if_splits)

lemma run_outer_cv_train_folds_fail:
  "train_folds l df features target group_col ps = Inl e
   \<Longrightarrow> run_outer_cv l df features target group_col ps output_dir files = (Inl e, files)"
  by (simp add: run_outer_cv_def)

text \<open>
  Claim C10. The per-fold tables are written only after every fold has been trained and
  evaluated: if any fold raises, \<^verbatim>\<open>run_outer_cv\<close> ends with an error and the files are
  as they were; if the files changed, every fold returned; and any error leaves the files
  unchanged.
\<close>

theorem artifacts_all_or_nothing:
  assumes "getitems df features = Inr X" and "getitem df target = Inr y"
    and "getitem df group_col = Inr groups" and "GroupKFold_split 10 groups = Inr outer_cv"
  shows "(s \<in> set outer_cv \<and> train_fold l ps X y s = Inl e \<longrightarrow>
            (\<exists>e'. run_outer_cv l df features target group_col ps output_dir files = (Inl e', files)))
       \<and> (snd (run_outer_cv l df features target group_col ps output_dir files) \<noteq> files \<longrightarrow>
            (\<exists>rs. mapM (train_fold l ps X y) outer_cv = Inr rs \<and> length rs = length outer_cv))
       \<and> (fst (run_outer_cv l df features target group_col ps output_dir files) = Inl e \<longrightarrow>
            snd (run_outer_cv l df features target group_col ps output_dir files) = files)"
proof -
  have tf: "train_folds l df features target group_col ps = mapM (train_fold l ps X y) outer_cv"
    using assms by (simp add: train_folds_def)
  show ?thesis
  proof (intro conjI impI)
    assume "s \<in> set outer_cv \<and> train_fold l ps X y s = Inl e"
    then obtain e' where "mapM (train_fold l ps X y) outer_cv = Inl e'"
      using mapM_fails [of s outer_cv "train_fold l ps X y" e] by auto
    then show "\<exists>e'. run_outer_cv l df features target group_col ps output_dir files = (Inl e', files)"
      by (simp add: run_outer_cv_def tf)
  next
    assume ne: "snd (run_outer_cv l df features target group_col ps output_dir files) \<noteq> files"
    then obtain rs where rs: "mapM (train_fold l ps X y) outer_cv = Inr rs"
      by (cases "mapM (train_fold l ps X y) outer_cv") (auto simp: run_outer_cv_def tf)
    then have "length rs = length outer_cv"
      by (auto simp: mapM_eq_Inr dest: list_all2_lengthD)
    with rs show "\<exists>rs. mapM (train_fold l ps X y) outer_cv = Inr rs \<and> length rs = length outer_cv"
      by blast
  next
    assume "fst (run_outer_cv l df features target group_col ps output_dir files) = Inl e"
    then show "snd (run_outer_cv l df features target group_col ps output_dir files) = files"
      by (rule run_outer_cv_error_keeps_files)
  qed
qed

section \<open>Absent mapping table\<close>






section \<open>Group cross-validator: the folds partition the rows\<close>

lemma index_of_less: "x \<in> set xs \<Longrightarrow> index_of xs x < length xs"
  by (induction xs) auto

lemma nth_index_of: "x \<in> set xs \<Longrightarrow> xs ! index_of xs x = x"
  by (induction xs) auto

lemma argmin_less: "ws \<noteq> [] \<Longrightarrow> argmin ws < length ws"
  by (induction ws rule: argmin.induct) (auto simp: Let_def)

lemma distribute_length: "length (distribute gs w per_fold g2f) = length g2f"
  by (induction gs arbitrary: per_fold g2f) (simp_all add: Let_def)

lemma distribute_bound:
  "per_fold \<noteq> [] \<Longrightarrow> \<forall>f \<in> set g2f. f < length per_fold
     \<Longrightarrow> \<forall>f \<in> set (distribute gs w per_fold g2f). f < length per_fold"
proof (induction gs arbitrary: per_fold g2f)
  case Nil
  then show ?case by simp
next
  case (Cons g gs)
  let ?l = "argmin per_fold"
  let ?pf = "per_fold[?l := per_fold ! ?l + w ! g]"
  have l: "?l < length per_fold" using Cons.prems(1) by (rule argmin_less)
  have "\<forall>f \<in> set (g2f[g := ?l]). f < length ?pf"
    using Cons.prems(2) l set_update_subset_insert [of g2f g ?l] by auto
  moreover have "?pf \<noteq> []" using Cons.prems(1) by simp
  ultimately have "\<forall>f \<in> set (distribute gs w ?pf (g2f[g := ?l])). f < length ?pf"
    by (rule Cons.IH [rotated])
  then show ?case by (simp add: Let_def)
qed

lemma group_to_fold_length: "length (group_to_fold n groups) = length (np_unique groups)"
  by (simp add: group_to_fold_def Let_def distribute_length n_samples_per_group_def)

lemma group_to_fold_bound:
  assumes "0 < n" and "f \<in> set (group_to_fold n groups)"
  shows "f < n"
proof -
  have "\<forall>f \<in> set (distribute (rev (argsort (n_samples_per_group groups))) (n_samples_per_group groups)
          (replicate n 0) (replicate (length (n_samples_per_group groups)) 0)). f < length (replicate n (0::nat))"
    using assms(1) by (intro distribute_bound) auto
  with assms(2) show ?thesis
    by (simp add: group_to_fold_def Let_def)
qed

lemma set_np_unique: "set (np_unique groups) = val_key ` set groups"
  by (simp add: np_unique_def)

lemma row_folds_length: "length (row_folds n groups) = length groups"
  by (simp add: row_folds_def Let_def)

lemma row_folds_nth:
  "i < length groups \<Longrightarrow>
     row_folds n groups ! i = group_to_fold n groups ! index_of (np_unique groups) (val_key (groups ! i))"
  by (simp add: row_folds_def Let_def)

lemma row_folds_bound:
  assumes "0 < n" and "i < length groups"
  shows "row_folds n groups ! i < n"
proof -
  have "val_key (groups ! i) \<in> set (np_unique groups)"
    using assms(2) by (simp add: set_np_unique)
  then have "index_of (np_unique groups) (val_key (groups ! i)) < length (group_to_fold n groups)"
    by (simp add: index_of_less group_to_fold_length)
  then have "group_to_fold n groups ! index_of (np_unique groups) (val_key (groups ! i))
      \<in> set (group_to_fold n groups)"
    by (rule nth_mem)
  with assms show ?thesis
    by (simp add: row_folds_nth group_to_fold_bound)
qed

lemma row_folds_same_group:
  "i < length groups \<Longrightarrow> j < length groups \<Longrightarrow> groups ! i = groups ! j
     \<Longrightarrow> row_folds n groups ! i = row_folds n groups ! j"
  by (simp add: row_folds_nth)

text \<open>What a successful split looks like.\<close>

lemma GroupKFold_split_Inr:
  assumes "GroupKFold_split n groups = Inr folds"
  shows "folds = map (\<lambda>f. (filter (\<lambda>i. row_folds n groups ! i \<noteq> f) [0..<length groups],
                            filter (\<lambda>i. row_folds n groups ! i = f) [0..<length groups])) [0..<n]"
    and "2 \<le> n" and "Null \<notin> set groups" and "n \<le> length (np_unique groups)"
proof -
  have c: "filter (\<lambda>i. i \<notin> set (filter P [0..<m])) [0..<m] = filter (\<lambda>i. \<not> P i) [0..<m]"
    for P and m :: nat
    by (rule filter_cong) auto
  show "folds = map (\<lambda>f. (filter (\<lambda>i. row_folds n groups ! i \<noteq> f) [0..<length groups],
                            filter (\<lambda>i. row_folds n groups ! i = f) [0..<length groups])) [0..<n]"
    using assms unfolding GroupKFold_split_def Let_def c by (auto split: if_splits)
  show "2 \<le> n" and "Null \<notin> set groups" and "n \<le> length (np_unique groups)"
    using assms by (auto simp: GroupKFold_split_def Let_def split: if_splits)
qed

lemma GroupKFold_split_in_range:
  assumes "GroupKFold_split n groups = Inr folds" and "s \<in> set folds"
  shows "list_all (\<lambda>i. i < length groups) (fst s)" and "list_all (\<lambda>i. i < length groups) (snd s)"
  using assms by (auto simp: GroupKFold_split_Inr(1) [OF assms(1)] list_all_iff)

lemma distinct_concat_filters:
  "distinct xs \<Longrightarrow> distinct fs
     \<Longrightarrow> distinct (concat (map (\<lambda>f. filter (\<lambda>x. g x = f) xs) fs))"
  by (induction fs) auto

lemma set_concat_filters:
  "set (concat (map (\<lambda>f. filter (\<lambda>x. g x = f) xs) fs)) = {x \<in> set xs. g x \<in> set fs}"
  by (induction fs) auto


text \<open>
  Claim C3. Whenever the ten-fold split returns, it returns ten folds; every row position
  is in the validation list of exactly one fold (the lists are pairwise disjoint and
  together hold every position once); a fold trains on the positions it does not validate
  on; no group identifier occurs on both sides of a fold; and every group is validated in
  exactly one fold.
\<close>

theorem group_kfold_partition:
  assumes "GroupKFold_split 10 groups = Inr folds"
  shows "length folds = 10
       \<and> distinct (concat (map snd folds))
       \<and> set (concat (map snd folds)) = {..<length groups}
       \<and> (\<forall>f<10. \<forall>f'<10. f \<noteq> f' \<longrightarrow> set (snd (folds ! f)) \<inter> set (snd (folds ! f')) = {})
       \<and> (\<forall>f<10. set (fst (folds ! f)) = {..<length groups} - set (snd (folds ! f)))
       \<and> (\<forall>f<10. (\<lambda>i. groups ! i) ` set (fst (folds ! f)) \<inter> (\<lambda>i. groups ! i) ` set (snd (folds ! f)) = {})
       \<and> (\<forall>g\<in>set groups. \<exists>!f. f < 10 \<and> g \<in> (\<lambda>i. groups ! i) ` set (snd (folds ! f)))"
proof -
  let ?n = "length groups"
  let ?rf = "row_folds 10 groups"
  let ?test = "\<lambda>f. filter (\<lambda>i. ?rf ! i = f) [0..<?n]"
  let ?train = "\<lambda>f. filter (\<lambda>i. ?rf ! i \<noteq> f) [0..<?n]"
  have folds: "folds = map (\<lambda>f. (?train f, ?test f)) [0..<10]"
    using assms by (rule GroupKFold_split_Inr(1))
  have len: "length folds = 10"
    by (simp add: folds)
  have nth: "folds ! f = (?train f, ?test f)" if "f < 10" for f
    using that by (simp add: folds del: upt_Suc)
  have snds: "map snd folds = map ?test [0..<10]"
    by (simp add: folds comp_def del: upt_Suc)
  have bound: "?rf ! i < 10" if "i < ?n" for i
    using that by (simp add: row_folds_bound)
  have d: "distinct (concat (map snd folds))"
    unfolding snds by (rule distinct_concat_filters) simp_all
  have u: "set (concat (map snd folds)) = {..<?n}"
    unfolding snds set_concat_filters using bound by auto
  have disj: "\<forall>f<10. \<forall>f'<10. f \<noteq> f' \<longrightarrow> set (snd (folds ! f)) \<inter> set (snd (folds ! f')) = {}"
    by (auto simp: nth)
  have compl: "\<forall>f<10. set (fst (folds ! f)) = {..<?n} - set (snd (folds ! f))"
    by (auto simp: nth)
  have grp: "\<forall>f<10. (\<lambda>i. groups ! i) ` set (fst (folds ! f)) \<inter> (\<lambda>i. groups ! i) ` set (snd (folds ! f)) = {}"
  proof (intro allI impI)
    fix f :: nat
    assume f: "f < 10"
    show "(\<lambda>i. groups ! i) ` set (fst (folds ! f)) \<inter> (\<lambda>i. groups ! i) ` set (snd (folds ! f)) = {}"
    proof (rule ccontr)
      assume "\<not> ?thesis"
      then obtain i j where "i < ?n" "j < ?n" "?rf ! i \<noteq> f" "?rf ! j = f" "groups ! i = groups ! j"
        by (auto simp: nth [OF f])
      then show False
        using row_folds_same_group [of i groups j 10] by simp
    qed
  qed
  have one: "\<forall>g\<in>set groups. \<exists>!f. f < 10 \<and> g \<in> (\<lambda>i. groups ! i) ` set (snd (folds ! f))"
  proof
    fix g
    assume "g \<in> set groups"
    then obtain i where i: "i < ?n" "groups ! i = g"
      by (auto simp: in_set_conv_nth)
    show "\<exists>!f. f < 10 \<and> g \<in> (\<lambda>i. groups ! i) ` set (snd (folds ! f))"
    proof (rule ex1I [of _ "?rf ! i"])
      show "?rf ! i < 10 \<and> g \<in> (\<lambda>i. groups ! i) ` set (snd (folds ! (?rf ! i)))"
        using i bound [OF i(1)] by (auto simp: nth image_iff)
    next
      fix f
      assume "f < 10 \<and> g \<in> (\<lambda>i. groups ! i) ` set (snd (folds ! f))"
      then obtain j where "j < ?n" "?rf ! j = f" "groups ! j = g"
        by (auto simp: nth)
      with i show "f = ?rf ! i"
        using row_folds_same_group [of i groups j 10] by simp
    qed
  qed
  from len d u disj compl grp one show ?thesis
    by blast
qed

section \<open>Fold trainer: what a fold needs and returns\<close>

lemma getitems_Inr:
  "getitems df cs = Inr X \<Longrightarrow> X = project df cs \<and> set cs \<subseteq> set (columns df)"
  by (auto simp: getitems_def Let_def filter_empty_conv split: if_splits)

lemma getitems_present: "set cs \<subseteq> set (columns df) \<Longrightarrow> getitems df cs = Inr (project df cs)"
  by (auto simp: getitems_def Let_def filter_empty_conv)

lemma getitem_Inr:
  "getitem df c = Inr vs \<Longrightarrow> vs = column_values df c \<and> c \<in> set (columns df)"
  by (auto simp: getitem_def split: if_splits)

lemma project_simps [simp]:
  "columns (project df cs) = cs" "length (rows (project df cs)) = length (rows df)"
  by (simp_all add: project_def)

lemma column_values_length [simp]: "length (column_values df c) = length (rows df)"
  by (simp add: column_values_def)

lemma frame_iloc_Inr:
  "frame_iloc X idx = Inr X' \<Longrightarrow> columns X' = columns X \<and> iloc (rows X) idx = Inr (rows X')"
  by (auto simp: frame_iloc_def andThen_eq_Inr)

lemma frame_iloc_in_range:
  "list_all (\<lambda>i. i < length (rows X)) idx
     \<Longrightarrow> frame_iloc X idx = Inr (X\<lparr>rows := map (\<lambda>i. rows X ! i) idx\<rparr>)"
  by (simp add: frame_iloc_def iloc_def)

text \<open>What a fold that returns has done.\<close>

lemma train_fold_Inr:
  assumes "train_fold l ps X y s = Inr r"
  shows "''date'' \<in> set (columns X) \<and> ''grid_id'' \<in> set (columns X)"
    and "\<exists>X_trn y_trn. frame_iloc X (fst s) = Inr X_trn \<and> iloc y (fst s) = Inr y_trn
           \<and> fit l ps (drop_columns X_trn drop_cols) y_trn = Inr (model_xgb r)"
proof -
  obtain trn_idx val_idx where s: "s = (trn_idx, val_idx)"
    by (cases s)
  from assms obtain X_trn X_val y_trn y_val train0 where
      a: "frame_iloc X trn_idx = Inr X_trn" "frame_iloc X val_idx = Inr X_val"
         "iloc y trn_idx = Inr y_trn" "iloc y val_idx = Inr y_val"
         "getitems X_trn [''date'', ''grid_id''] = Inr train0"
    unfolding train_fold_def s prod.case andThen_eq_Inr by blast
  from getitems_Inr [OF a(5)] have "set [''date'', ''grid_id''] \<subseteq> set (columns X_trn)"
    by blast
  with frame_iloc_Inr [OF a(1)] show "''date'' \<in> set (columns X) \<and> ''grid_id'' \<in> set (columns X)"
    by simp
  from assms obtain X_trn y_trn model where
      "frame_iloc X trn_idx = Inr X_trn" "iloc y trn_idx = Inr y_trn"
      "fit l ps (drop_columns X_trn drop_cols) y_trn = Inr model" "model_xgb r = model"
    unfolding train_fold_def s prod.case andThen_eq_Inr Let_def by force
  then show "\<exists>X_trn y_trn. frame_iloc X (fst s) = Inr X_trn \<and> iloc y (fst s) = Inr y_trn
           \<and> fit l ps (drop_columns X_trn drop_cols) y_trn = Inr (model_xgb r)"
    by (auto simp: s)
qed

lemma train_fold_without_identifiers:
  assumes "''date'' \<notin> set (columns X) \<or> ''grid_id'' \<notin> set (columns X)"
    and "list_all (\<lambda>i. i < length (rows X)) (fst s)" and "list_all (\<lambda>i. i < length (rows X)) (snd s)"
    and "length y = length (rows X)"
  shows "train_fold l ps X y s
         = Inl (KeyError (filter (\<lambda>c. c \<notin> set (columns X)) [''date'', ''grid_id'']))"
proof -
  obtain trn_idx val_idx where s: "s = (trn_idx, val_idx)"
    by (cases s)
  have "getitems (X\<lparr>rows := map (\<lambda>i. rows X ! i) trn_idx\<rparr>) [''date'', ''grid_id'']
        = Inl (KeyError (filter (\<lambda>c. c \<notin> set (columns X)) [''date'', ''grid_id'']))"
    using assms(1) by (auto simp: getitems_def Let_def)
  then show ?thesis
    using assms(2-4) by (simp add: train_fold_def s frame_iloc_in_range iloc_def)
qed

lemma mapM_Inr_nonempty:
  "mapM f (x # xs) = Inr ys \<Longrightarrow> \<exists>y. f x = Inr y"
  by (auto simp: andThen_eq_Inr)

lemma setitem_columns_list:
  "setitem df c vs = Inr df' \<Longrightarrow>
     columns df' = (if c \<in> set (columns df) then columns df else columns df @ [c])"
  by (auto simp: setitem_def split: if_splits)

text \<open>
  A fold that returns has built the two prediction tables: date, fine identifier, observed
  and predicted target. This needs the identifier columns among the features.
\<close>

lemma train_fold_tables:
  assumes "train_fold l ps X y s = Inr r"
  shows "columns (train_df r) = [''date'', ''grid_id'', ''y_trn'', ''trn_y_pred'']"
    and "columns (eval_df r) = [''date'', ''grid_id'', ''y_val'', ''y_pred'']"
proof -
  obtain trn_idx val_idx where s: "s = (trn_idx, val_idx)"
    by (cases s)
  from assms obtain X_trn X_val y_trn y_val train0 train1 eval0 eval1 y_trn_pred y_val_pred where
      a: "getitems X_trn [''date'', ''grid_id''] = Inr train0"
         "setitem train0 ''y_trn'' y_trn = Inr train1"
         "getitems X_val [''date'', ''grid_id''] = Inr eval0"
         "setitem eval0 ''y_val'' y_val = Inr eval1"
         "setitem train1 ''trn_y_pred'' y_trn_pred = Inr (train_df r)"
         "setitem eval1 ''y_pred'' y_val_pred = Inr (eval_df r)"
    unfolding train_fold_def s prod.case andThen_eq_Inr Let_def by force
  have "columns train0 = [''date'', ''grid_id'']" "columns eval0 = [''date'', ''grid_id'']"
    using getitems_Inr [OF a(1)] getitems_Inr [OF a(3)] by simp_all
  then have "columns train1 = [''date'', ''grid_id'', ''y_trn'']"
    "columns eval1 = [''date'', ''grid_id'', ''y_val'']"
    using setitem_columns_list [OF a(2)] setitem_columns_list [OF a(4)] by simp_all
  then show "columns (train_df r) = [''date'', ''grid_id'', ''y_trn'', ''trn_y_pred'']"
    and "columns (eval_df r) = [''date'', ''grid_id'', ''y_val'', ''y_pred'']"
    using setitem_columns_list [OF a(5)] setitem_columns_list [OF a(6)] by simp_all
qed

lemma train_folds_Inr:
  assumes "train_folds l df features target group_col ps = Inr rs"
  shows "\<exists>y groups outer_cv.
           getitems df features = Inr (project df features) \<and> getitem df target = Inr y
         \<and> getitem df group_col = Inr groups \<and> GroupKFold_split 10 groups = Inr outer_cv
         \<and> length outer_cv = 10
         \<and> list_all2 (\<lambda>s r. train_fold l ps (project df features) y s = Inr r) outer_cv rs"
proof -
  from assms obtain X y groups outer_cv where
      a: "getitems df features = Inr X" "getitem df target = Inr y"
         "getitem df group_col = Inr groups" "GroupKFold_split 10 groups = Inr outer_cv"
         "mapM (train_fold l ps X y) outer_cv = Inr rs"
    unfolding train_folds_def andThen_eq_Inr by blast
  have "X = project df features"
    using getitems_Inr [OF a(1)] by simp
  moreover have "length outer_cv = 10"
    using GroupKFold_split_Inr(1) [OF a(4)] by simp
  ultimately show ?thesis
    using a by (auto simp: mapM_eq_Inr)
qed

lemma train_folds_need_identifiers:
  assumes "''date'' \<notin> set features \<or> ''grid_id'' \<notin> set features"
  shows "\<exists>e. train_folds l df features target group_col ps = Inl e"
proof (cases "train_folds l df features target group_col ps")
  case (Inl e)
  then show ?thesis by blast
next
  case (Inr rs)
  from train_folds_Inr [OF Inr] obtain y outer_cv where
      len: "length outer_cv = 10"
      and all: "list_all2 (\<lambda>s r. train_fold l ps (project df features) y s = Inr r) outer_cv rs"
    by blast
  from len all have "train_fold l ps (project df features) y (outer_cv ! 0) = Inr (rs ! 0)"
    by (simp add: list_all2_conv_all_nth)
  from train_fold_Inr(1) [OF this] assms show ?thesis
    by simp
qed

lemma train_folds_KeyError:
  assumes "''date'' \<notin> set features \<or> ''grid_id'' \<notin> set features"
    and "getitems df features = Inr X" and "getitem df target = Inr y"
    and "getitem df group_col = Inr groups" and "GroupKFold_split 10 groups = Inr outer_cv"
  shows "train_folds l df features target group_col ps
         = Inl (KeyError (filter (\<lambda>c. c \<notin> set features) [''date'', ''grid_id'']))"
proof -
  have X: "X = project df features"
    using getitems_Inr [OF assms(2)] by simp
  have y: "length y = length (rows df)"
    using getitem_Inr [OF assms(3)] by simp
  have g: "length groups = length (rows df)"
    using getitem_Inr [OF assms(4)] by simp
  have "length outer_cv = 10"
    using GroupKFold_split_Inr(1) [OF assms(5)] by simp
  then obtain s ss where cv: "outer_cv = s # ss"
    by (cases outer_cv) auto
  then have "s \<in> set outer_cv" by simp
  from GroupKFold_split_in_range [OF assms(5) this]
  have "train_fold l ps X y s = Inl (KeyError (filter (\<lambda>c. c \<notin> set (columns X)) [''date'', ''grid_id'']))"
    using assms(1) by (intro train_fold_without_identifiers) (simp_all add: X y g)
  then show ?thesis
    using assms(2-5) by (simp add: train_folds_def cv X)
qed

lemma feature_cols_no_identifiers: "''date'' \<notin> set feature_cols \<and> ''grid_id'' \<notin> set feature_cols"
  by (simp add: feature_cols_def)

lemma main_stops_at_training:
  "\<exists>e files'. main l files = (Inl e, files')"
proof (cases "load_and_sample_df l files")
  case (Pair r files1)
  show ?thesis
  proof (cases r)
    case (Inl e)
    with Pair show ?thesis by (simp add: main_def)
  next
    case (Inr df_sampled)
    show ?thesis
    proof (cases "load_ml_input l files1")
      case (Inl e)
      with Pair Inr show ?thesis by (simp add: main_def)
    next
      case ml: (Inr df_ml)
      from train_folds_need_identifiers [of feature_cols l df_ml target_col "''grid_id_50km''" best_params_XGB]
      obtain e where "train_folds l df_ml feature_cols target_col ''grid_id_50km'' best_params_XGB = Inl e"
        using feature_cols_no_identifiers by blast
      then have "run_outer_cv l df_ml feature_cols target_col ''grid_id_50km'' best_params_XGB
                   OUTPUT_ML_DIR files1 = (Inl e, files1)"
        by (rule run_outer_cv_train_folds_fail)
      with Pair Inr ml show ?thesis by (simp add: main_def)
    qed
  qed
qed

text \<open>
  Claim C1. With the feature list of \<^verbatim>\<open>main\<close>, which has neither \<^verbatim>\<open>date\<close> nor
  \<^verbatim>\<open>grid_id\<close>, \<^verbatim>\<open>run_outer_cv\<close> builds no prediction table: it always ends with an error
  and writes nothing. When the steps before the loop succeed, the error is the KeyError of
  \<^verbatim>\<open>X_trn[['date', 'grid_id']]\<close> in the first fold. So \<^verbatim>\<open>main\<close> always ends with an error.
\<close>

theorem identifier_columns_missing_from_features:
  "(\<exists>e. run_outer_cv l df feature_cols target group_col ps output_dir files = (Inl e, files))
   \<and> (getitems df feature_cols = Inr X \<and> getitem df target = Inr y
        \<and> getitem df group_col = Inr groups \<and> GroupKFold_split 10 groups = Inr outer_cv
      \<longrightarrow> run_outer_cv l df feature_cols target group_col ps output_dir files
            = (Inl (KeyError [''date'', ''grid_id'']), files))
   \<and> (\<exists>e files'. main l files = (Inl e, files'))"
proof (intro conjI impI)
  from train_folds_need_identifiers [of feature_cols l df target group_col ps]
  obtain e where "train_folds l df feature_cols target group_col ps = Inl e"
    using feature_cols_no_identifiers by blast
  then show "\<exists>e. run_outer_cv l df feature_cols target group_col ps output_dir files = (Inl e, files)"
    by (simp add: run_outer_cv_def)
next
  assume a: "getitems df feature_cols = Inr X \<and> getitem df target = Inr y
        \<and> getitem df group_col = Inr groups \<and> GroupKFold_split 10 groups = Inr outer_cv"
  have "train_folds l df feature_cols target group_col ps
        = Inl (KeyError (filter (\<lambda>c. c \<notin> set feature_cols) [''date'', ''grid_id'']))"
    using feature_cols_no_identifiers a by (intro train_folds_KeyError) auto
  then show "run_outer_cv l df feature_cols target group_col ps output_dir files
            = (Inl (KeyError [''date'', ''grid_id'']), files)"
    using feature_cols_no_identifiers by (simp add: run_outer_cv_def)
next
  show "\<exists>e files'. main l files = (Inl e, files')"
    by (rule main_stops_at_training)
qed

section \<open>The final model\<close>




section \<open>Imputer: the frame of the output\<close>





section \<open>Stratified sampler: the sample of each cell\<close>

lemma py_round_nonneg: "0 \<le> x \<Longrightarrow> 0 \<le> py_round x"
  by (auto simp: py_round_def Let_def)





lemma iloc_Inr:
  "iloc xs idx = Inr ys \<Longrightarrow> ys = map (\<lambda>i. xs ! i) idx \<and> (\<forall>i \<in> set idx. i < length xs)"
  by (auto simp: iloc_def list_all_iff split: if_splits)

lemma sample_Inr_subset: "sample l fraction seed xs = Inr ys \<Longrightarrow> set ys \<subseteq> set xs"
  by (auto simp: sample_def dest!: iloc_Inr split: if_splits)



lemma groupby_Inr:
  assumes "groupby df by = Inr cells"
  shows "distinct (concat cells)"
    and "set (concat cells) = {i. i < length (rows df) \<and> Null \<notin> set (group_keys df by ! i)}"
    and "set by \<subseteq> set (columns df)"
proof -
  let ?ks = "group_keys df by"
  let ?valid = "filter (\<lambda>i. Null \<notin> set (?ks ! i)) [0..<length ?ks]"
  let ?uniq = "sort (remdups (map (\<lambda>i. map val_key (?ks ! i)) ?valid))"
  from assms have m: "filter (\<lambda>c. c \<notin> set (columns df)) by = []"
    by (auto simp: groupby_def split: list.splits)
  then show "set by \<subseteq> set (columns df)"
    by (auto simp: filter_empty_conv)
  from assms m have cells: "cells = map (\<lambda>u. filter (\<lambda>i. map val_key (?ks ! i) = u) ?valid) ?uniq"
    by (simp add: groupby_def Let_def)
  show "distinct (concat cells)"
    unfolding cells by (rule distinct_concat_filters) simp_all
  have len: "length ?ks = length (rows df)"
    by (simp add: group_keys_def)
  show "set (concat cells) = {i. i < length (rows df) \<and> Null \<notin> set (group_keys df by ! i)}"
    unfolding cells set_concat_filters using len by auto
qed

lemma group_keys_nth:
  "i < length (rows df) \<Longrightarrow>
     group_keys df by ! i = map (\<lambda>c. cell (rows df ! i) (index_of (columns df) c)) by"
  by (simp add: group_keys_def project_def)





section \<open>Grid merger and sampler: records without a coarse group\<close>

lemma merge_left_Inr:
  "merge_left l r on = Inr m \<Longrightarrow> rows m = concat (map (join_row l r on) (rows l))"
  by (auto simp: merge_left_def Let_def split: if_splits)

lemma join_row_unmatched:
  "right_matches r on (cell lr (index_of (columns l) on)) = []
     \<Longrightarrow> join_row l r on lr = [lr @ replicate (length (filter (\<lambda>c. c \<noteq> on) (columns r))) Null]"
  by (simp add: join_row_def Let_def)

lemma groupby_rows_have_keys:
  assumes "groupby df by = Inr cells"
  shows "set (concat cells)
         = {i. i < length (rows df) \<and> (\<forall>c\<in>set by. cell (rows df ! i) (index_of (columns df) c) \<noteq> Null)}"
proof -
  have "Null \<notin> set (group_keys df by ! i)
        \<longleftrightarrow> (\<forall>c\<in>set by. cell (rows df ! i) (index_of (columns df) c) \<noteq> Null)"
    if "i < length (rows df)" for i
    using that by (simp add: group_keys_nth image_iff) metis
  then show ?thesis
    unfolding groupby_Inr(2) [OF assms] by auto
qed

lemma sample_groups_Inr:
  assumes "sample_groups l fraction seed df by = Inr chosen"
  shows "\<exists>cells. groupby df by = Inr cells
           \<and> list_all2 (\<lambda>c ch. sample l fraction seed c = Inr ch \<and> set ch \<subseteq> set c) cells chosen"
proof -
  from assms obtain cells where c: "groupby df by = Inr cells"
      and m: "mapM (sample l fraction seed) cells = Inr chosen"
    by (auto simp: sample_groups_def andThen_eq_Inr)
  from m have "list_all2 (\<lambda>c ch. sample l fraction seed c = Inr ch) cells chosen"
    by (simp add: mapM_eq_Inr)
  then have "list_all2 (\<lambda>c ch. sample l fraction seed c = Inr ch \<and> set ch \<subseteq> set c) cells chosen"
    by (rule list_all2_mono) (simp add: sample_Inr_subset)
  with c show ?thesis by blast
qed

lemma concat_subsets:
  "list_all2 (\<lambda>c ch. P c ch \<and> set ch \<subseteq> set c) cells chosen \<Longrightarrow> set (concat chosen) \<subseteq> set (concat cells)"
  by (induction rule: list_all2_induct) auto

lemma groupby_sample_keys_not_null:
  assumes "groupby_sample l fraction seed df by = Inr s" and "c \<in> set by"
  shows "Null \<notin> set (column_values s c)"
proof -
  from assms(1) obtain chosen where ch: "sample_groups l fraction seed df by = Inr chosen"
      and il: "frame_iloc df (concat chosen) = Inr s"
    by (auto simp: groupby_sample_def andThen_eq_Inr)
  from sample_groups_Inr [OF ch] obtain cells where cells: "groupby df by = Inr cells"
      and all: "list_all2 (\<lambda>c ch. sample l fraction seed c = Inr ch \<and> set ch \<subseteq> set c) cells chosen"
    by blast
  have sub: "set (concat chosen) \<subseteq> set (concat cells)"
    using all by (rule concat_subsets)
  from il have s: "columns s = columns df" "rows s = map (\<lambda>i. rows df ! i) (concat chosen)"
    by (auto simp: frame_iloc_def andThen_eq_Inr dest!: iloc_Inr)
  have "Null \<noteq> cell (rows df ! i) (index_of (columns df) c)" if "i \<in> set (concat chosen)" for i
    using that sub assms(2) groupby_rows_have_keys [OF cells] by force
  then show ?thesis
    by (auto simp: column_values_def s)
qed

lemma load_and_sample_df_Inr:
  assumes "load_and_sample_df l files = (Inr df_sampled, files')"
  shows "\<exists>df. groupby_sample l (3 / 100) 42 df [''grid_id_50km'', ''year_month''] = Inr df_sampled"
proof -
  from assms have "andThen (load_df l files) (sample_df l) = Inr df_sampled"
    by (auto simp: load_and_sample_df_def split: sum.splits)
  then obtain df where "sample_df l df = Inr df_sampled"
    by (auto simp: andThen_eq_Inr)
  then show ?thesis
    unfolding sample_df_def andThen_eq_Inr by blast
qed

text \<open>
  Claim C7. The left join keeps every record; a record whose fine identifier matches no
  row of the mapping table gets a missing value in every column of that table, the coarse
  group among them. The cells of the grouped sampling are made of exactly the rows whose
  key columns hold no missing value, each cell is sampled from its own rows only, and so
  the sampled table of \<^verbatim>\<open>load_and_sample_df\<close> has no missing coarse group.
\<close>

theorem unmatched_records_excluded_from_sampling:
  "(merge_left l r on = Inr m \<longrightarrow> rows m = concat (map (join_row l r on) (rows l)))
   \<and> (right_matches r on (cell lr (index_of (columns l) on)) = [] \<longrightarrow>
        join_row l r on lr = [lr @ replicate (length (filter (\<lambda>c. c \<noteq> on) (columns r))) Null])
   \<and> (sample_groups lb fraction seed df by = Inr chosen \<longrightarrow>
        (\<exists>cells. groupby df by = Inr cells
           \<and> list_all2 (\<lambda>c ch. sample lb fraction seed c = Inr ch \<and> set ch \<subseteq> set c) cells chosen
           \<and> set (concat cells)
               = {i. i < length (rows df)
                     \<and> (\<forall>c\<in>set by. cell (rows df ! i) (index_of (columns df) c) \<noteq> Null)}))
   \<and> (load_and_sample_df lb files = (Inr df_sampled, files') \<longrightarrow>
        Null \<notin> set (column_values df_sampled ''grid_id_50km''))"
proof (intro conjI impI)
  assume "merge_left l r on = Inr m"
  then show "rows m = concat (map (join_row l r on) (rows l))"
    by (rule merge_left_Inr)
next
  assume "right_matches r on (cell lr (index_of (columns l) on)) = []"
  then show "join_row l r on lr = [lr @ replicate (length (filter (\<lambda>c. c \<noteq> on) (columns r))) Null]"
    by (rule join_row_unmatched)
next
  assume "sample_groups lb fraction seed df by = Inr chosen"
  from sample_groups_Inr [OF this] obtain cells where
      "groupby df by = Inr cells"
      "list_all2 (\<lambda>c ch. sample lb fraction seed c = Inr ch \<and> set ch \<subseteq> set c) cells chosen"
    by blast
  with groupby_rows_have_keys [of df "by" cells]
  show "\<exists>cells. groupby df by = Inr cells
           \<and> list_all2 (\<lambda>c ch. sample lb fraction seed c = Inr ch \<and> set ch \<subseteq> set c) cells chosen
           \<and> set (concat cells)
               = {i. i < length (rows df)
                     \<and> (\<forall>c\<in>set by. cell (rows df ! i) (index_of (columns df) c) \<noteq> Null)}"
    by blast
next
  assume "load_and_sample_df lb files = (Inr df_sampled, files')"
  from load_and_sample_df_Inr [OF this] obtain df0 where
      "groupby_sample lb (3 / 100) 42 df0 [''grid_id_50km'', ''year_month''] = Inr df_sampled"
    by blast
  then show "Null \<notin> set (column_values df_sampled ''grid_id_50km'')"
    by (rule groupby_sample_keys_not_null) simp
qed

section \<open>Determinism\<close>







section \<open>The model on the example data\<close>

lemma demo_groups_split: "GroupKFold_split 10 demo_groups = Inr demo_folds"
  by code_simp

lemma demo_df_groups: "column_values demo_df ''grid_id_50km'' = demo_groups"
  by (simp add: column_values_def demo_df_def demo_groups_def cell_def)

lemma demo_split: "GroupKFold_split 10 (column_values demo_df ''grid_id_50km'') = Inr demo_folds"
  by (simp add: demo_df_groups demo_groups_split)

lemma demo_getitems: "getitems demo_df [''date'', ''grid_id'', ''x''] = Inr (project demo_df [''date'', ''grid_id'', ''x''])"
  by (simp add: getitems_def demo_df_def)

lemma demo_target: "getitem demo_df ''aod'' = Inr (column_values demo_df ''aod'')"
  by (simp add: getitem_def demo_df_def)

lemma demo_groups: "getitem demo_df ''grid_id_50km'' = Inr (column_values demo_df ''grid_id_50km'')"
  by (simp add: getitem_def demo_df_def)

lemmas eval_frame = frame_iloc_def iloc_def getitems_def getitem_def project_def setitem_def
  drop_columns_def drop_cols_def column_values_def cell_def Let_def

lemma demo_fold_fails:
  "train_fold (demo_lib\<lparr>fit := \<lambda>params X y. Inl (OtherError ''fit'')\<rparr>) [] (project demo_df [''date'', ''grid_id'', ''x''])
     (column_values demo_df ''aod'') ([0, 1, 2, 3, 4, 5, 6, 7, 9], [8]) = Inl (OtherError ''fit'')"
  by (simp add: train_fold_def eval_frame demo_lib_def demo_df_def)


theorem artifacts_all_or_nothing_witness:
  "\<exists>e'. run_outer_cv (demo_lib\<lparr>fit := \<lambda>params X y. Inl (OtherError ''fit'')\<rparr>) demo_df
           [''date'', ''grid_id'', ''x''] ''aod'' ''grid_id_50km'' [] ''out'' Map.empty
         = (Inl e', Map.empty)"
proof -
  have "([0, 1, 2, 3, 4, 5, 6, 7, 9], [8]) \<in> set demo_folds"
    by (simp add: demo_folds_def)
  with demo_fold_fails
    artifacts_all_or_nothing [OF demo_getitems demo_target demo_groups demo_split,
      of "([0, 1, 2, 3, 4, 5, 6, 7, 9], [8])" "demo_lib\<lparr>fit := \<lambda>params X y. Inl (OtherError ''fit'')\<rparr>" "[]"
         "OtherError ''fit''" "''out''" Map.empty]
  show ?thesis
    by blast
qed

lemma demo_missing_dates: "parse_dates demo_missing ''date'' = Inr demo_missing"
  by (simp add: parse_dates_def getitem_def column_values_def cell_def to_datetime_def
      setitem_def demo_missing_def)

theorem missing_feature_fails_before_prediction_witness:
  "final_imputation demo_lib (demo_df, []) [''x'', ''lat''] [missing_file \<mapsto> demo_missing]
   = (Inl (KeyError [''lat'']), [missing_file \<mapsto> demo_missing])"
proof -
  have "''lat'' \<in> set [''x'', ''lat'']" and "''lat'' \<notin> set (columns demo_missing)"
    by (simp_all add: demo_missing_def)
  from missing_feature_fails_before_prediction [OF this, of demo_lib "(demo_df, [])"
      "[missing_file \<mapsto> demo_missing]"] demo_missing_dates
  show ?thesis
    by (auto simp: demo_missing_def)
qed


theorem group_kfold_partition_witness:
  "length demo_folds = 10 \<and> distinct (concat (map snd demo_folds))
   \<and> set (concat (map snd demo_folds)) = {..<length (column_values demo_df ''grid_id_50km'')}"
  using group_kfold_partition [OF demo_split] by (elim conjE, intro conjI) assumption+

lemma demo_full_groups: "column_values demo_full ''grid_id_50km'' = demo_groups"
  by (simp add: column_values_def demo_full_def demo_groups_def cell_def)

theorem identifier_columns_missing_from_features_witness:
  "run_outer_cv demo_lib demo_full feature_cols target_col ''grid_id_50km'' best_params_XGB
     OUTPUT_ML_DIR Map.empty = (Inl (KeyError [''date'', ''grid_id'']), Map.empty)"
proof -
  have "getitems demo_full feature_cols = Inr (project demo_full feature_cols)"
    by (rule getitems_present) (auto simp: demo_full_def)
  moreover have "getitem demo_full target_col = Inr (column_values demo_full target_col)"
    by (simp add: getitem_def demo_full_def target_col_def)
  moreover have "getitem demo_full ''grid_id_50km'' = Inr demo_groups"
    by (simp add: getitem_def demo_full_groups) (simp add: demo_full_def)
  ultimately show ?thesis
    using identifier_columns_missing_from_features [of demo_lib demo_full target_col
        "''grid_id_50km''" best_params_XGB OUTPUT_ML_DIR Map.empty "project demo_full feature_cols"
        "column_values demo_full target_col" demo_groups demo_folds] demo_groups_split
    by simp
qed











lemma demo_merge:
  "merge_grid demo_lib demo_fine demo_grid
   = Inr \<lparr>columns = [''date'', ''grid_id'', ''grid_id_50km''],
           rows = [[DateV 2020 1 1, StrV ''200'', IntV 7], [DateV 2020 1 2, StrV ''201'', Null]]\<rparr>"
  by code_simp

lemma demo_load_and_sample:
  "fst (load_and_sample_df demo_lib [input_file \<mapsto> demo_fine, grid_file \<mapsto> demo_grid])
   = Inr \<lparr>columns = [''date'', ''grid_id'', ''grid_id_50km'', ''year_month''], rows = []\<rparr>"
  by code_simp

lemma demo_unmapped_sample:
  "sample_groups demo_lib (3 / 100) 42 demo_unmapped [''grid_id_50km'', ''year_month''] = Inr [[16]]"
  by code_simp

lemma demo_unmatched:
  "right_matches (rename demo_grid ''grid_id_10km'' ''grid_id'') ''grid_id''
     (cell [DateV 2020 1 2, IntV 201] (index_of (columns demo_fine) ''grid_id'')) = []"
  by code_simp

theorem unmatched_records_excluded_from_sampling_witness:
  "join_row demo_fine (rename demo_grid ''grid_id_10km'' ''grid_id'') ''grid_id'' [DateV 2020 1 2, IntV 201]
     = [[DateV 2020 1 2, IntV 201, Null]]
   \<and> (\<exists>cells. groupby demo_unmapped [''grid_id_50km'', ''year_month''] = Inr cells
         \<and> set (concat cells) = {..<17}
         \<and> list_all2 (\<lambda>c ch. set ch \<subseteq> set c) cells [[16]])
   \<and> Null \<notin> set (column_values
        \<lparr>columns = [''date'', ''grid_id'', ''grid_id_50km'', ''year_month''], rows = []\<rparr> ''grid_id_50km'')"
proof -
  obtain files' where ld: "load_and_sample_df demo_lib [input_file \<mapsto> demo_fine, grid_file \<mapsto> demo_grid]
      = (Inr \<lparr>columns = [''date'', ''grid_id'', ''grid_id_50km'', ''year_month''], rows = []\<rparr>, files')"
    using demo_load_and_sample by (metis prod.collapse)
  note t = unmatched_records_excluded_from_sampling [of demo_fine
      "rename demo_grid ''grid_id_10km'' ''grid_id''" "''grid_id''" _ "[DateV 2020 1 2, IntV 201]"
      demo_lib "3 / 100" 42 demo_unmapped "[''grid_id_50km'', ''year_month'']" "[[16]]"
      "[input_file \<mapsto> demo_fine, grid_file \<mapsto> demo_grid]"
      "\<lparr>columns = [''date'', ''grid_id'', ''grid_id_50km'', ''year_month''], rows = []\<rparr>" files']
  have j: "join_row demo_fine (rename demo_grid ''grid_id_10km'' ''grid_id'') ''grid_id'' [DateV 2020 1 2, IntV 201]
     = [[DateV 2020 1 2, IntV 201, Null]]"
    using t demo_unmatched by (simp add: rename_def demo_grid_def)
  from t demo_unmapped_sample obtain cells where
      c: "groupby demo_unmapped [''grid_id_50km'', ''year_month''] = Inr cells"
         "list_all2 (\<lambda>c ch. sample demo_lib (3 / 100) 42 c = Inr ch \<and> set ch \<subseteq> set c) cells [[16]]"
         "set (concat cells) = {i. i < length (rows demo_unmapped)
            \<and> (\<forall>c\<in>set [''grid_id_50km'', ''year_month''].
                  cell (rows demo_unmapped ! i) (index_of (columns demo_unmapped) c) \<noteq> Null)}"
    by blast
  have "{i. i < length (rows demo_unmapped)
            \<and> (\<forall>c\<in>set [''grid_id_50km'', ''year_month''].
                  cell (rows demo_unmapped ! i) (index_of (columns demo_unmapped) c) \<noteq> Null)} = {..<17}"
    by (auto simp: demo_unmapped_def cell_def nth_append less_Suc_eq)
  with c(3) have s: "set (concat cells) = {..<17}"
    by simp
  from c(2) have "list_all2 (\<lambda>c ch. set ch \<subseteq> set c) cells [[16]]"
    by (rule list_all2_mono) simp
  with c(1) s have g: "\<exists>cells. groupby demo_unmapped [''grid_id_50km'', ''year_month''] = Inr cells
         \<and> set (concat cells) = {..<17}
         \<and> list_all2 (\<lambda>c ch. set ch \<subseteq> set c) cells [[16]]"
    by blast
  from t ld have n: "Null \<notin> set (column_values
        \<lparr>columns = [''date'', ''grid_id'', ''grid_id_50km'', ''year_month''], rows = []\<rparr> ''grid_id_50km'')"
    by blast
  from j g n show ?thesis
    by blast
qed




end
